theory Spec2Isabelle
  imports Main "HOL-Library.Log_Nat"
begin

section \<open>Data model\<close>

text \<open>
  The payment view of the repository (the single-file component with \<open>NETWORK_MAP\<close>,
  \<open>ensureNetwork\<close>, \<open>createPaymentToken\<close>, \<open>executePayment\<close>,
  \<open>findBestPaymentOption\<close> and \<open>handlePayment\<close>) is embedded function by function.
  JavaScript strings are modelled as \<open>string\<close>: every character is one code unit in the
  range 0..255, which is exactly the range \<open>window.btoa\<close> accepts.
\<close>

record X402Extra =
  extra_name :: "string option"
  extra_decimals :: "int option"

record X402Option =
  scheme :: string
  network :: string
  resource :: string
  payTo :: string
  asset :: string
  maxAmountRequired :: string
  extra :: "X402Extra option"

record NativeCurrency =
  currency_name :: string
  currency_symbol :: string
  currency_decimals :: int

record ChainConfig =
  chainIdHex :: string
  chainIdDec :: int
  chainName :: string
  nativeCurrency :: NativeCurrency
  rpcUrls :: "string list"
  blockExplorerUrls :: "string list"

subsection \<open>Thrown values\<close>

text \<open>
  A thrown JavaScript value is read by the component through four properties only:
  \<open>code\<close>, \<open>error?.code\<close>, \<open>message\<close> and \<open>response\<close> (set by the HTTP
  client when the server answered with a failure status).
\<close>

datatype js_code = NoCode | NumCode int | StrCode string

record Payload =
  payload_url :: string

record Body =
  body_accepts :: "X402Option list option"
  body_error :: string
  body_data :: "Payload option"
  body_url :: string

record Response =
  status :: int
  data :: "Body option"

record js_error =
  code :: js_code
  error_code :: js_code
  message :: string
  response :: "Response option"

definition Error :: "string \<Rightarrow> js_error" where
  "Error msg = \<lparr>code = NoCode, error_code = NoCode, message = msg, response = None\<rparr>"

section \<open>The network registry\<close>

definition base_sepolia :: ChainConfig where
  "base_sepolia =
     \<lparr>chainIdHex = ''0x14a34'', chainIdDec = 84532, chainName = ''Base Sepolia'',
      nativeCurrency =
        \<lparr>currency_name = ''ETH'', currency_symbol = ''ETH'', currency_decimals = 18\<rparr>,
      rpcUrls = [''https://sepolia.base.org''],
      blockExplorerUrls = [''https://sepolia.basescan.org'']\<rparr>"

definition sepolia :: ChainConfig where
  "sepolia =
     \<lparr>chainIdHex = ''0xaa36a7'', chainIdDec = 11155111, chainName = ''Sepolia'',
      nativeCurrency =
        \<lparr>currency_name = ''SepoliaETH'', currency_symbol = ''ETH'', currency_decimals = 18\<rparr>,
      rpcUrls = [''https://rpc.sepolia.org''],
      blockExplorerUrls = [''https://sepolia.etherscan.io'']\<rparr>"

definition NETWORK_MAP :: "(string \<times> ChainConfig) list" where
  "NETWORK_MAP = [(''base-sepolia'', base_sepolia), (''sepolia'', sepolia)]"

text \<open>
  \<open>NETWORK_MAP\<close> is an object literal, so its prototype is \<open>Object.prototype\<close>, and the
  bracket read \<open>NETWORK_MAP[option.network]\<close> is an ordinary property read: a key that is
  not an own property is looked up on the prototype. The members of \<open>Object.prototype\<close>
  are functions, and \<open>__proto__\<close> reads as \<open>Object.prototype\<close> itself.
\<close>

definition Object_prototype_keys :: "string list" where
  "Object_prototype_keys =
     [''constructor'', ''__defineGetter__'', ''__defineSetter__'', ''hasOwnProperty'',
      ''__lookupGetter__'', ''__lookupSetter__'', ''isPrototypeOf'',
      ''propertyIsEnumerable'', ''toString'', ''valueOf'', ''__proto__'',
      ''toLocaleString'']"

text \<open>
  What the variable \<open>config\<close> holds at run time: a registry entry, or a member inherited
  from the prototype (an object without any of the \<open>ChainConfig\<close> properties).
  \<open>None\<close> stands for \<open>undefined\<close>.
\<close>

datatype config_value = Entry ChainConfig | Inherited string

definition NETWORK_MAP_get :: "string \<Rightarrow> config_value option" where
  "NETWORK_MAP_get key =
     (case map_of NETWORK_MAP key of
        Some c \<Rightarrow> Some (Entry c)
      | None \<Rightarrow> if key \<in> set Object_prototype_keys then Some (Inherited key) else None)"

text \<open>The registry of the specification: the fixed table, and nothing else.\<close>

definition registry_lookup :: "string \<Rightarrow> ChainConfig option" where
  "registry_lookup key = map_of NETWORK_MAP key"

section \<open>findBestPaymentOption\<close>

fun join :: "string \<Rightarrow> string list \<Rightarrow> string" where
  "join sep [] = []"
| "join sep [x] = x"
| "join sep (x # y # ys) = x @ sep @ join sep (y # ys)"

definition no_supported_network :: "X402Option list \<Rightarrow> js_error" where
  "no_supported_network accepts =
     Error (''No supported payment network found. Server accepts: ''
            @ join '', '' (map network accepts))"

text \<open>The \<open>for ... of\<close> loop: the first option whose lookup is truthy is returned.\<close>

fun first_supported :: "X402Option list \<Rightarrow> (X402Option \<times> config_value) option" where
  "first_supported [] = None"
| "first_supported (opt # rest) =
     (case NETWORK_MAP_get (network opt) of
        Some config \<Rightarrow> Some (opt, config)
      | None \<Rightarrow> first_supported rest)"

definition findBestPaymentOption ::
  "X402Option list \<Rightarrow> js_error + (X402Option \<times> config_value)" where
  "findBestPaymentOption accepts =
     (case first_supported accepts of
        Some r \<Rightarrow> Inr r
      | None \<Rightarrow> Inl (no_supported_network accepts))"

definition option_on :: "string \<Rightarrow> X402Option" where
  "option_on net =
     \<lparr>scheme = ''exact'', network = net, resource = ''/payment/basic'',
      payTo = ''0xMerchant'', asset = ''0xUSDC'', maxAmountRequired = ''1000000'',
      extra = None\<rparr>"

section \<open>Numbers and their texts\<close>

text \<open>
  A \<open>bigint\<close> is an \<open>int\<close>. A \<open>number\<close> that holds a chain id is modelled by its
  integer value; the texts below are the ones JavaScript produces for a \<open>bigint\<close> and
  for a \<open>number\<close> that is a safe integer (magnitude below \<open>2 ^ 53\<close>).
\<close>

definition digit_char :: "nat \<Rightarrow> char" where
  "digit_char d = char_of (48 + d)"

fun show_nat :: "nat \<Rightarrow> string" where
  "show_nat n =
     (if n < 10 then [digit_char n] else show_nat (n div 10) @ [digit_char (n mod 10)])"

declare show_nat.simps [simp del]

definition show_int :: "int \<Rightarrow> string" where
  "show_int i = (if i < 0 then CHR ''-'' # show_nat (nat (- i)) else show_nat (nat i))"

definition safe_integer :: "int \<Rightarrow> bool" where
  "safe_integer n = (\<bar>n\<bar> < 2 ^ 53)"

text \<open>
  \<open>Number(network.chainId)\<close> converts a \<open>bigint\<close> to the nearest double, ties to even:
  exact below \<open>2 ^ 53\<close>, and above it the 53 leading bits are kept and rounded.
\<close>

definition Number_bigint :: "int \<Rightarrow> int" where
  "Number_bigint n =
     (let a = nat \<bar>n\<bar> in
      if a < 2 ^ 53 then n
      else
        let e = floorlog 2 a - 53;
            q = a div 2 ^ e;
            r = a mod 2 ^ e;
            half = 2 ^ (e - 1);
            q' = (if half < r \<or> (r = half \<and> odd q) then q + 1 else q)
        in sgn n * int (q' * 2 ^ e))"

text \<open>
  \<open>BigInt(string)\<close>: white space is trimmed, the empty text is zero, a decimal literal
  may carry a sign, a literal with a radix prefix may not, and anything else raises a
  \<open>SyntaxError\<close> (\<open>None\<close>).
\<close>

definition digit_value :: "char \<Rightarrow> nat option" where
  "digit_value c =
     (let n = of_char c :: nat in
      if 48 \<le> n \<and> n \<le> 57 then Some (n - 48)
      else if 97 \<le> n \<and> n \<le> 102 then Some (n - 87)
      else if 65 \<le> n \<and> n \<le> 70 then Some (n - 55)
      else None)"

fun radix_value :: "nat \<Rightarrow> nat \<Rightarrow> string \<Rightarrow> nat option" where
  "radix_value base acc [] = Some acc"
| "radix_value base acc (c # cs) =
     (case digit_value c of
        None \<Rightarrow> None
      | Some d \<Rightarrow> if d < base then radix_value base (acc * base + d) cs else None)"

definition digits_in :: "nat \<Rightarrow> string \<Rightarrow> nat option" where
  "digits_in base ds = (if ds = [] then None else radix_value base 0 ds)"

definition is_white_space :: "char \<Rightarrow> bool" where
  "is_white_space c = ((of_char c :: nat) \<in> set [9, 10, 11, 12, 13, 32, 160])"

definition trim :: "string \<Rightarrow> string" where
  "trim s = rev (dropWhile is_white_space (rev (dropWhile is_white_space s)))"

definition BigInt :: "string \<Rightarrow> int option" where
  "BigInt s =
     (let t = trim s in
      if t = [] then Some 0
      else if take 2 t = ''0x'' \<or> take 2 t = ''0X'' then map_option int (digits_in 16 (drop 2 t))
      else if take 2 t = ''0o'' \<or> take 2 t = ''0O'' then map_option int (digits_in 8 (drop 2 t))
      else if take 2 t = ''0b'' \<or> take 2 t = ''0B'' then map_option int (digits_in 2 (drop 2 t))
      else if hd t = CHR ''-'' then map_option (\<lambda>n. - int n) (digits_in 10 (tl t))
      else if hd t = CHR ''+'' then map_option int (digits_in 10 (tl t))
      else map_option int (digits_in 10 t))"

section \<open>createPaymentToken\<close>

subsection \<open>JSON.stringify\<close>

definition hex_char :: "nat \<Rightarrow> char" where
  "hex_char d = (if d < 10 then char_of (48 + d) else char_of (87 + d))"

definition unicode_escape :: "char \<Rightarrow> string" where
  "unicode_escape c =
     [CHR 0x5C, CHR ''u'', CHR ''0'', CHR ''0'',
      hex_char (of_char c div 16), hex_char (of_char c mod 16)]"

definition QuoteJSONChar :: "char \<Rightarrow> string" where
  "QuoteJSONChar c =
     (if c = CHR 0x08 then [CHR 0x5C, CHR ''b'']
      else if c = CHR 0x09 then [CHR 0x5C, CHR ''t'']
      else if c = CHR 0x0A then [CHR 0x5C, CHR ''n'']
      else if c = CHR 0x0C then [CHR 0x5C, CHR ''f'']
      else if c = CHR 0x0D then [CHR 0x5C, CHR ''r'']
      else if c = CHR 0x22 then [CHR 0x5C, CHR 0x22]
      else if c = CHR 0x5C then [CHR 0x5C, CHR 0x5C]
      else if (of_char c :: nat) < 32 then unicode_escape c
      else [c])"

definition QuoteJSONString :: "string \<Rightarrow> string" where
  "QuoteJSONString s = CHR 0x22 # concat (map QuoteJSONChar s) @ [CHR 0x22]"

text \<open>
  The object \<open>{hash: txHash, chainId: chainId}\<close>. \<open>None\<close> is \<open>undefined\<close>, which
  \<open>JSON.stringify\<close> leaves out together with its key.
\<close>

record Payment =
  hash :: string
  chainId :: "int option"

definition JSON_stringify :: "Payment \<Rightarrow> string" where
  \<open>JSON_stringify payload =
     ''{"hash":'' @ QuoteJSONString (hash payload)
     @ (case chainId payload of
          None \<Rightarrow> []
        | Some n \<Rightarrow> '',"chainId":'' @ show_int n)
     @ ''}''\<close>

subsection \<open>window.btoa\<close>

definition b64_char :: "nat \<Rightarrow> char" where
  "b64_char n =
     (if n < 26 then char_of (65 + n)
      else if n < 52 then char_of (71 + n)
      else if n < 62 then char_of (n - 4)
      else if n = 62 then CHR ''+''
      else CHR ''/'')"

definition sextet1 :: "nat \<Rightarrow> nat" where
  "sextet1 a = a div 4"

definition sextet2 :: "nat \<Rightarrow> nat \<Rightarrow> nat" where
  "sextet2 a b = a mod 4 * 16 + b div 16"

definition sextet3 :: "nat \<Rightarrow> nat \<Rightarrow> nat" where
  "sextet3 b c = b mod 16 * 4 + c div 64"

definition sextet4 :: "nat \<Rightarrow> nat" where
  "sextet4 c = c mod 64"

fun btoa_bytes :: "nat list \<Rightarrow> string" where
  "btoa_bytes [] = []"
| "btoa_bytes [a] =
     [b64_char (sextet1 a), b64_char (sextet2 a 0), CHR ''='', CHR ''='']"
| "btoa_bytes [a, b] =
     [b64_char (sextet1 a), b64_char (sextet2 a b), b64_char (sextet3 b 0), CHR ''='']"
| "btoa_bytes (a # b # c # rest) =
     [b64_char (sextet1 a), b64_char (sextet2 a b), b64_char (sextet3 b c),
      b64_char (sextet4 c)] @ btoa_bytes rest"

definition btoa :: "string \<Rightarrow> string" where
  "btoa s = btoa_bytes (map of_char s)"

subsection \<open>The token\<close>

definition createPaymentToken :: "string \<Rightarrow> int option \<Rightarrow> string" where
  "createPaymentToken txHash chain =
     (let payload = \<lparr>hash = txHash, chainId = chain\<rparr>;
          jsonString = JSON_stringify payload
      in btoa jsonString)"

subsection \<open>Decoding a token\<close>

text \<open>
  Modelled from the spec: the repository only encodes; the resource server decodes. The
  decoder of the round-trip law is \<open>atob\<close> on padded Base64 text followed by
  \<open>JSON.parse\<close> on texts of the shape \<open>{"hash":string}\<close> or
  \<open>{"hash":string,"chainId":integer}\<close>; every other text is rejected (\<open>None\<close>).
\<close>

definition b64_index :: "char \<Rightarrow> nat option" where
  "b64_index c =
     (let n = of_char c :: nat in
      if 65 \<le> n \<and> n \<le> 90 then Some (n - 65)
      else if 97 \<le> n \<and> n \<le> 122 then Some (n - 71)
      else if 48 \<le> n \<and> n \<le> 57 then Some (n + 4)
      else if n = 43 then Some 62
      else if n = 47 then Some 63
      else None)"

definition octet1 :: "nat \<Rightarrow> nat \<Rightarrow> nat" where
  "octet1 w x = w * 4 + x div 16"

definition octet2 :: "nat \<Rightarrow> nat \<Rightarrow> nat" where
  "octet2 x y = x mod 16 * 16 + y div 4"

definition octet3 :: "nat \<Rightarrow> nat \<Rightarrow> nat" where
  "octet3 y z = y mod 4 * 64 + z"

fun atob_bytes :: "string \<Rightarrow> nat list option" where
  "atob_bytes [] = Some []"
| "atob_bytes (a # b # c # d # rest) =
     (case (b64_index a, b64_index b) of
        (Some w, Some x) \<Rightarrow>
          if d = CHR ''='' then
            (if rest \<noteq> [] then None
             else if c = CHR ''='' then Some [octet1 w x]
             else (case b64_index c of
                     Some y \<Rightarrow> Some [octet1 w x, octet2 x y]
                   | None \<Rightarrow> None))
          else
            (case (b64_index c, b64_index d) of
               (Some y, Some z) \<Rightarrow>
                 map_option (\<lambda>bytes. [octet1 w x, octet2 x y, octet3 y z] @ bytes)
                   (atob_bytes rest)
             | _ \<Rightarrow> None)
      | _ \<Rightarrow> None)"
| "atob_bytes _ = None"

definition atob :: "string \<Rightarrow> string option" where
  "atob t = map_option (map char_of) (atob_bytes t)"

definition unescape :: "char \<Rightarrow> char option" where
  "unescape e =
     (if e = CHR 0x22 then Some (CHR 0x22)
      else if e = CHR 0x5C then Some (CHR 0x5C)
      else if e = CHR ''/'' then Some (CHR ''/'')
      else if e = CHR ''b'' then Some (CHR 0x08)
      else if e = CHR ''f'' then Some (CHR 0x0C)
      else if e = CHR ''n'' then Some (CHR 0x0A)
      else if e = CHR ''r'' then Some (CHR 0x0D)
      else if e = CHR ''t'' then Some (CHR 0x09)
      else None)"

definition hex4 :: "char \<Rightarrow> char \<Rightarrow> char \<Rightarrow> char \<Rightarrow> char option" where
  "hex4 h1 h2 h3 h4 =
     (case (digit_value h1, digit_value h2, digit_value h3, digit_value h4) of
        (Some a, Some b, Some c, Some d) \<Rightarrow>
          if a = 0 \<and> b = 0 then Some (char_of (c * 16 + d)) else None
      | _ \<Rightarrow> None)"

fun parse_string_chars :: "string \<Rightarrow> (string \<times> string) option" where
  "parse_string_chars [] = None"
| "parse_string_chars (c # cs) =
     (if c = CHR 0x22 then Some ([], cs)
      else if c = CHR 0x5C then
        (case cs of
           [] \<Rightarrow> None
         | e # es \<Rightarrow>
             if e = CHR ''u'' then
               (case es of
                  h1 # h2 # h3 # h4 # rest \<Rightarrow>
                    (case hex4 h1 h2 h3 h4 of
                       Some ch \<Rightarrow>
                         map_option (\<lambda>(s, r). (ch # s, r)) (parse_string_chars rest)
                     | None \<Rightarrow> None)
                | _ \<Rightarrow> None)
             else
               (case unescape e of
                  Some ch \<Rightarrow> map_option (\<lambda>(s, r). (ch # s, r)) (parse_string_chars es)
                | None \<Rightarrow> None))
      else if (of_char c :: nat) < 32 then None
      else map_option (\<lambda>(s, r). (c # s, r)) (parse_string_chars cs))"

definition is_digit :: "char \<Rightarrow> bool" where
  "is_digit c = (48 \<le> (of_char c :: nat) \<and> (of_char c :: nat) \<le> 57)"

definition digits_value :: "string \<Rightarrow> nat" where
  "digits_value ds = foldl (\<lambda>acc c. 10 * acc + (of_char c - 48)) 0 ds"

definition parse_nat :: "string \<Rightarrow> nat option" where
  "parse_nat ds =
     (if ds = [] \<or> \<not> list_all is_digit ds \<or> (1 < length ds \<and> hd ds = CHR ''0'')
      then None else Some (digits_value ds))"

definition parse_number :: "string \<Rightarrow> int option" where
  "parse_number s =
     (case s of
        [] \<Rightarrow> None
      | c # cs \<Rightarrow>
          if c = CHR ''-'' then map_option (\<lambda>n. - int n) (parse_nat cs)
          else map_option int (parse_nat s))"

fun strip_prefix :: "string \<Rightarrow> string \<Rightarrow> string option" where
  "strip_prefix [] s = Some s"
| "strip_prefix (p # ps) [] = None"
| "strip_prefix (p # ps) (c # cs) = (if p = c then strip_prefix ps cs else None)"

definition JSON_parse :: "string \<Rightarrow> Payment option" where
  \<open>JSON_parse text =
     (case strip_prefix ''{"hash":"'' text of
        None \<Rightarrow> None
      | Some t \<Rightarrow>
          (case parse_string_chars t of
             None \<Rightarrow> None
           | Some (h, rest) \<Rightarrow>
               if rest = ''}'' then Some \<lparr>hash = h, chainId = None\<rparr>
               else
                 (case strip_prefix '',"chainId":'' rest of
                    None \<Rightarrow> None
                  | Some num \<Rightarrow>
                      if num = [] \<or> last num \<noteq> CHR ''}'' then None
                      else map_option (\<lambda>n. \<lparr>hash = h, chainId = Some n\<rparr>)
                             (parse_number (butlast num)))))\<close>

definition decodePaymentToken :: "string \<Rightarrow> Payment option" where
  "decodePaymentToken token = Option.bind (atob token) JSON_parse"

definition encodePayment :: "Payment \<Rightarrow> string" where
  "encodePayment p = createPaymentToken (hash p) (chainId p)"

section \<open>The wallet, the chain and the server\<close>

text \<open>
  The component talks to three outside parties: the resource server (through
  \<open>api.get\<close>), the wallet provider and the token contract. Every such call is an event
  of the run, in program order, and the answer comes from the environment: a value, or
  a thrown error. The component makes no two identical calls in one run, so an
  environment that answers by call is as general as one that answers by history.
\<close>

record AddEthereumChainParameter =
  add_chainId :: "string option"
  add_chainName :: "string option"
  add_nativeCurrency :: "NativeCurrency option"
  add_rpcUrls :: "string list option"
  add_blockExplorerUrls :: "string list option"

datatype rpc_params =
    SwitchParams "string option"
  | AddParams AddEthereumChainParameter

text \<open>
  \<open>HttpGet url header\<close> is \<open>api.get(url)\<close>, with the request header
  \<open>X-Payment\<close> set to \<open>header\<close> when there is one. \<open>Send method params\<close> is
  \<open>provider.send(method, [params])\<close>. \<open>BalanceOf token owner\<close> and
  \<open>Transfer token to amount\<close> are the two calls on the ERC-20 contract at address
  \<open>token\<close>, with the arguments as the component passes them. \<open>Wait tx n\<close> is
  \<open>tx.wait(n)\<close> on the transaction with hash \<open>tx\<close>. \<open>SetLocation\<close> and
  \<open>Alert\<close> are the two things \<open>handleSuccess\<close> does. Writes to the console are
  not events.
\<close>

datatype event =
    HttpGet string "string option"
  | GetNetwork
  | Send string rpc_params
  | GetSigner
  | GetAddress
  | BalanceOf string string
  | Transfer string string string
  | Wait string nat
  | SetLocation string
  | Alert string

record Env =
  ethereum :: bool
  api_get :: "string \<Rightarrow> string option \<Rightarrow> js_error + Response"
  getNetwork :: "js_error + int"
  provider_send :: "string \<Rightarrow> rpc_params \<Rightarrow> js_error + unit"
  getSigner :: "js_error + unit"
  getAddress :: "js_error + string"
  balanceOf :: "string \<Rightarrow> string \<Rightarrow> js_error + int"
  token_transfer :: "string \<Rightarrow> string \<Rightarrow> string \<Rightarrow> js_error + string"
  tx_wait :: "string \<Rightarrow> nat \<Rightarrow> js_error + unit"

text \<open>A run yields a value or a thrown error, and the events it caused.\<close>

type_synonym 'a run = "(js_error + 'a) \<times> event list"

definition return :: "'a \<Rightarrow> 'a run" where
  "return x = (Inr x, [])"

definition throw :: "js_error \<Rightarrow> 'a run" where
  "throw e = (Inl e, [])"

definition call :: "event \<Rightarrow> js_error + 'a \<Rightarrow> 'a run" where
  "call ev answer = (answer, [ev])"

definition await :: "'a run \<Rightarrow> ('a \<Rightarrow> 'b run) \<Rightarrow> 'b run" where
  "await m k =
     (case m of
        (Inl e, t) \<Rightarrow> (Inl e, t)
      | (Inr x, t) \<Rightarrow> (case k x of (r, t') \<Rightarrow> (r, t @ t')))"

definition try_catch :: "'a run \<Rightarrow> (js_error \<Rightarrow> 'a run) \<Rightarrow> 'a run" where
  "try_catch m handler =
     (case m of
        (Inl e, t) \<Rightarrow> (case handler e of (r, t') \<Rightarrow> (r, t @ t'))
      | (Inr x, t) \<Rightarrow> (Inr x, t))"

section \<open>ensureNetwork\<close>

text \<open>Property reads on \<open>config\<close>; an inherited member has none of the properties.\<close>

fun config_chainIdDec :: "config_value \<Rightarrow> int option" where
  "config_chainIdDec (Entry c) = Some (chainIdDec c)"
| "config_chainIdDec (Inherited k) = None"

fun config_chainIdHex :: "config_value \<Rightarrow> string option" where
  "config_chainIdHex (Entry c) = Some (chainIdHex c)"
| "config_chainIdHex (Inherited k) = None"

text \<open>
  \<open>{ chainId: chainIdHex, ...params }\<close>, where \<open>params\<close> is \<open>config\<close> without
  \<open>chainIdDec\<close> and \<open>chainIdHex\<close>. An inherited member has no enumerable property of
  its own.
\<close>

fun add_chain_params :: "config_value \<Rightarrow> AddEthereumChainParameter" where
  "add_chain_params (Entry c) =
     \<lparr>add_chainId = Some (chainIdHex c), add_chainName = Some (chainName c),
      add_nativeCurrency = Some (nativeCurrency c), add_rpcUrls = Some (rpcUrls c),
      add_blockExplorerUrls = Some (blockExplorerUrls c)\<rparr>"
| "add_chain_params (Inherited k) =
     \<lparr>add_chainId = None, add_chainName = None, add_nativeCurrency = None,
      add_rpcUrls = None, add_blockExplorerUrls = None\<rparr>"

definition unrecognized_chain :: "js_error \<Rightarrow> bool" where
  "unrecognized_chain switchError =
     (code switchError = NumCode 4902 \<or> error_code switchError = NumCode 4902)"

definition switch_request :: "config_value \<Rightarrow> event" where
  "switch_request config =
     Send ''wallet_switchEthereumChain'' (SwitchParams (config_chainIdHex config))"

definition add_request :: "config_value \<Rightarrow> event" where
  "add_request config = Send ''wallet_addEthereumChain'' (AddParams (add_chain_params config))"

definition switch_answer :: "Env \<Rightarrow> config_value \<Rightarrow> js_error + unit" where
  "switch_answer env config =
     provider_send env ''wallet_switchEthereumChain'' (SwitchParams (config_chainIdHex config))"

definition add_answer :: "Env \<Rightarrow> config_value \<Rightarrow> js_error + unit" where
  "add_answer env config =
     provider_send env ''wallet_addEthereumChain'' (AddParams (add_chain_params config))"

definition ensureNetwork :: "Env \<Rightarrow> config_value \<Rightarrow> unit run" where
  "ensureNetwork env config =
     await (call GetNetwork (getNetwork env)) (\<lambda>network_chainId.
       if Some (Number_bigint network_chainId) = config_chainIdDec config then return ()
       else
         try_catch (call (switch_request config) (switch_answer env config))
           (\<lambda>switchError.
              if unrecognized_chain switchError then
                call (add_request config) (add_answer env config)
              else throw switchError))"

section \<open>executePayment\<close>

text \<open>
  The \<open>SyntaxError\<close> of \<open>BigInt\<close> on a text that is no integer literal; the
  wording of the message is the engine's (here V8's).
\<close>

definition SyntaxError_BigInt :: "string \<Rightarrow> js_error" where
  "SyntaxError_BigInt s = Error (''Cannot convert '' @ s @ '' to a BigInt'')"

definition insufficient_balance :: "int \<Rightarrow> int \<Rightarrow> js_error" where
  "insufficient_balance requiredAmount balance =
     Error (''Insufficient Token Balance. You need '' @ show_int requiredAmount
            @ '' units of the token, but you only have '' @ show_int balance @ ''.'')"

definition executePayment :: "Env \<Rightarrow> X402Option \<Rightarrow> config_value \<Rightarrow> string run" where
  "executePayment env option config =
     (if \<not> ethereum env then throw (Error ''No crypto wallet found'')
      else
        await (ensureNetwork env config) (\<lambda>_.
        await (call GetSigner (getSigner env)) (\<lambda>_.
        await (call GetAddress (getAddress env)) (\<lambda>userAddress.
        await (call (BalanceOf (asset option) userAddress)
                 (balanceOf env (asset option) userAddress)) (\<lambda>balance.
        await (case BigInt (maxAmountRequired option) of
                 None \<Rightarrow> throw (SyntaxError_BigInt (maxAmountRequired option))
               | Some n \<Rightarrow> return n) (\<lambda>requiredAmount.
        if balance < requiredAmount then throw (insufficient_balance requiredAmount balance)
        else
          await (call (Transfer (asset option) (payTo option) (maxAmountRequired option))
                   (token_transfer env (asset option) (payTo option)
                      (maxAmountRequired option))) (\<lambda>tx_hash.
          await (call (Wait tx_hash 1) (tx_wait env tx_hash 1)) (\<lambda>_.
          return tx_hash))))))))"

text \<open>The events that touch the payer's funds: a transfer, and the wait for it.\<close>

fun submits :: "event \<Rightarrow> bool" where
  "submits (Transfer token to amount) = True"
| "submits (Wait tx confirmations) = True"
| "submits ev = False"

text \<open>The events that are requests to the resource server.\<close>

fun is_request :: "event \<Rightarrow> bool" where
  "is_request (HttpGet url header) = True"
| "is_request ev = False"

section \<open>handlePayment\<close>

record State =
  user :: "string option"
  loading :: bool
  error :: string

definition getResponseData :: "Response \<Rightarrow> Payload option" where
  "getResponseData res =
     (case data res of
        None \<Rightarrow> None
      | Some body \<Rightarrow>
          (case body_data body of
             Some inner \<Rightarrow> Some inner
           | None \<Rightarrow> Some \<lparr>payload_url = body_url body\<rparr>))"

definition validated_message :: string where
  "validated_message = ''Payment validated successfully! Resource is now accessible.''"

definition handleSuccess :: "Response \<Rightarrow> unit run" where
  "handleSuccess res =
     (case getResponseData res of
        None \<Rightarrow> call (Alert validated_message) (Inr ())
      | Some d \<Rightarrow>
          if payload_url d \<noteq> [] then call (SetLocation (payload_url d)) (Inr ())
          else call (Alert validated_message) (Inr ()))"

text \<open>
  The \<open>TypeError\<close> of \<open>const { accepts } = err.response.data\<close> when the 402
  answer has no body; the wording is the engine's (here V8's).
\<close>

definition TypeError_destructure :: js_error where
  "TypeError_destructure =
     Error (''Cannot destructure property 'accepts' of 'err.response.data' ''
            @ ''as it is undefined.'')"

text \<open>The body of the inner \<open>try\<close>: match, pay, encode, retry.\<close>

definition pay_and_retry :: "Env \<Rightarrow> string \<Rightarrow> Response \<Rightarrow> unit run" where
  "pay_and_retry env url res =
     (case data res of
        None \<Rightarrow> throw TypeError_destructure
      | Some body \<Rightarrow>
          (case body_accepts body of
             None \<Rightarrow> throw (Error ''Invalid payment parameters'')
           | Some accepts \<Rightarrow>
               await (findBestPaymentOption accepts, []) (\<lambda>(option, config).
               await (executePayment env option config) (\<lambda>txHash.
               let paymentToken = createPaymentToken txHash (config_chainIdDec config) in
               await (call (HttpGet url (Some paymentToken))
                        (api_get env url (Some paymentToken))) (\<lambda>retryRes.
               handleSuccess retryRes)))))"

definition payment_error_text :: "js_error \<Rightarrow> string" where
  "payment_error_text payErr =
     (if code payErr = StrCode ''ACTION_REJECTED'' then ''You rejected the transaction.''
      else if message payErr \<noteq> [] then message payErr
      else ''Payment execution failed'')"

definition request_error_text :: "js_error \<Rightarrow> string" where
  "request_error_text err =
     (let server_text =
            (case response err of
               None \<Rightarrow> []
             | Some res \<Rightarrow> (case data res of None \<Rightarrow> [] | Some body \<Rightarrow> body_error body))
      in if server_text \<noteq> [] then server_text
         else if message err \<noteq> [] then message err
         else ''Request failed'')"

definition payment_required :: "js_error \<Rightarrow> Response option" where
  "payment_required err =
     (case response err of
        None \<Rightarrow> None
      | Some res \<Rightarrow> if status res = 402 then Some res else None)"

definition payment_url :: "string \<Rightarrow> string" where
  "payment_url plan = ''/payment/'' @ plan"

definition handlePayment :: "Env \<Rightarrow> string \<Rightarrow> State \<Rightarrow> State \<times> event list" where
  "handlePayment env plan st =
     (let st1 = st\<lparr>loading := True, error := []\<rparr>;
          url = payment_url plan
      in case api_get env url None of
           Inr res \<Rightarrow>
             (st1\<lparr>loading := False\<rparr>, HttpGet url None # snd (handleSuccess res))
         | Inl err \<Rightarrow>
             (case payment_required err of
                Some res \<Rightarrow>
                  (case pay_and_retry env url res of
                     (Inr _, t) \<Rightarrow> (st1\<lparr>loading := False\<rparr>, HttpGet url None # t)
                   | (Inl payErr, t) \<Rightarrow>
                       (st1\<lparr>error := payment_error_text payErr, loading := False\<rparr>,
                        HttpGet url None # t))
              | None \<Rightarrow>
                  (st1\<lparr>error := request_error_text err, loading := False\<rparr>,
                   [HttpGet url None])))"

section \<open>The template\<close>




section \<open>Sample environments\<close>

text \<open>
  The scenarios of the specification: the server offers one option on
  \<open>base-sepolia\<close> and honours the retried request; the wallet is on a given chain,
  answers the chain requests in a given way, holds a given balance, and the transfer
  has a given outcome.
\<close>

definition wallet_error :: "js_code \<Rightarrow> string \<Rightarrow> js_error" where
  "wallet_error c msg = \<lparr>code = c, error_code = NoCode, message = msg, response = None\<rparr>"

definition offer_body :: "X402Option list \<Rightarrow> Body" where
  "offer_body offered =
     \<lparr>body_accepts = Some offered, body_error = [], body_data = None, body_url = []\<rparr>"

definition offer :: "X402Option list \<Rightarrow> Response" where
  "offer offered = \<lparr>status = 402, data = Some (offer_body offered)\<rparr>"

definition payment_required_error :: "X402Option list \<Rightarrow> js_error" where
  "payment_required_error offered =
     \<lparr>code = StrCode ''ERR_BAD_REQUEST'', error_code = NoCode,
      message = ''Request failed with status code 402'',
      response = Some (offer offered)\<rparr>"

definition resource_response :: Response where
  "resource_response =
     \<lparr>status = 200,
      data = Some \<lparr>body_accepts = None, body_error = [], body_data = None,
                   body_url = ''/premium''\<rparr>\<rparr>"

definition paying_server :: "string option \<Rightarrow> js_error + Response" where
  "paying_server header =
     (case header of
        None \<Rightarrow> Inl (payment_required_error [option_on ''base-sepolia''])
      | Some token \<Rightarrow> Inr resource_response)"

definition refusing_server :: "string option \<Rightarrow> js_error + Response" where
  "refusing_server header = Inl (payment_required_error [option_on ''base-sepolia''])"

definition switch_ok :: "string \<Rightarrow> rpc_params \<Rightarrow> js_error + unit" where
  "switch_ok method params = Inr ()"

definition switch_unknown_chain :: "string \<Rightarrow> rpc_params \<Rightarrow> js_error + unit" where
  "switch_unknown_chain method params =
     (if method = ''wallet_switchEthereumChain''
      then Inl (wallet_error (NumCode 4902) ''Unrecognized chain ID'')
      else Inr ())"


definition sample_env ::
  "int \<Rightarrow> (string \<Rightarrow> rpc_params \<Rightarrow> js_error + unit) \<Rightarrow> int \<Rightarrow> js_error + string
   \<Rightarrow> (string option \<Rightarrow> js_error + Response) \<Rightarrow> Env" where
  "sample_env chain chain_requests held transfer_outcome server =
     \<lparr>ethereum = True,
      api_get = (\<lambda>url header. server header),
      getNetwork = Inr chain,
      provider_send = chain_requests,
      getSigner = Inr (),
      getAddress = Inr ''0xPayer'',
      balanceOf = (\<lambda>token owner. Inr held),
      token_transfer = (\<lambda>token to amount. transfer_outcome),
      tx_wait = (\<lambda>tx confirmations. Inr ())\<rparr>"



definition sample_token :: string where
  "sample_token = ''eyJoYXNoIjoiMHhhYmMiLCJjaGFpbklkIjo4NDUzMn0=''"

definition idle :: State where
  "idle = \<lparr>user = Some ''0xPayer'', loading = False, error = []\<rparr>"

section \<open>Properties of the matcher\<close>

lemma first_supported_own:
  assumes "\<forall>x \<in> set pre. registry_lookup (network x) = None"
      and "\<forall>x \<in> set pre. network x \<notin> set Object_prototype_keys"
      and "registry_lookup (network opt) = Some c"
  shows "first_supported (pre @ opt # post) = Some (opt, Entry c)"
  using assms
  by (induction pre) (simp_all add: NETWORK_MAP_get_def registry_lookup_def)

lemma first_supported_none:
  assumes "\<forall>x \<in> set accepts. registry_lookup (network x) = None"
      and "\<forall>x \<in> set accepts. network x \<notin> set Object_prototype_keys"
  shows "first_supported accepts = None"
  using assms
  by (induction accepts) (simp_all add: NETWORK_MAP_get_def registry_lookup_def)

text \<open>
  Away from the names of the prototype's members the matcher is the leftmost-match
  function over the registry, and it fails with the list of all offered tokens when
  nothing matches.
\<close>

lemma findBestPaymentOption_leftmost:
  assumes "\<forall>x \<in> set pre. registry_lookup (network x) = None"
      and "\<forall>x \<in> set pre. network x \<notin> set Object_prototype_keys"
      and "registry_lookup (network opt) = Some c"
  shows "findBestPaymentOption (pre @ opt # post) = Inr (opt, Entry c)"
  by (simp add: findBestPaymentOption_def first_supported_own [OF assms])

lemma findBestPaymentOption_unsupported:
  assumes "\<forall>x \<in> set accepts. registry_lookup (network x) = None"
      and "\<forall>x \<in> set accepts. network x \<notin> set Object_prototype_keys"
  shows "findBestPaymentOption accepts = Inl (no_supported_network accepts)"
  by (simp add: findBestPaymentOption_def first_supported_none [OF assms])

text \<open>Scenario C of the specification: only \<open>polygon\<close> is offered.\<close>

lemma findBestPaymentOption_scenario_C:
  "findBestPaymentOption [option_on ''polygon'']
     = Inl (Error ''No supported payment network found. Server accepts: polygon'')"
  by (simp add: findBestPaymentOption_def NETWORK_MAP_get_def NETWORK_MAP_def
      Object_prototype_keys_def no_supported_network_def option_on_def)

text \<open>
  C1. The claim: whenever some offered option has a network token in the registry, the
  matcher returns the first such option with that network's \<open>ChainConfig\<close>. On the list
  \<open>[constructor, base-sepolia]\<close> the registry knows only the second token, yet the
  matcher returns the first option, paired with the inherited member \<open>constructor\<close>.
\<close>

theorem findBestPaymentOption_inherited_first:
  "registry_lookup ''constructor'' = None
   \<and> registry_lookup ''base-sepolia'' \<noteq> None
   \<and> findBestPaymentOption [option_on ''constructor'', option_on ''base-sepolia'']
       = Inr (option_on ''constructor'', Inherited ''constructor'')"
  by (simp add: findBestPaymentOption_def NETWORK_MAP_get_def registry_lookup_def
      NETWORK_MAP_def Object_prototype_keys_def option_on_def)

text \<open>
  C2. The claim: when no offered network token is in the registry, the matcher fails
  and lists the offered tokens. On the list \<open>[toString]\<close> no token is in the registry,
  yet the matcher does not fail: it selects the option.
\<close>

theorem findBestPaymentOption_inherited_selected:
  "registry_lookup (network (option_on ''toString'')) = None
   \<and> findBestPaymentOption [option_on ''toString'']
       = Inr (option_on ''toString'', Inherited ''toString'')"
  by (simp add: findBestPaymentOption_def NETWORK_MAP_get_def registry_lookup_def
      NETWORK_MAP_def Object_prototype_keys_def option_on_def)

section \<open>Properties of the encoding\<close>

subsection \<open>Base64\<close>

lemma of_char_b64_char:
  "n < 64 \<Longrightarrow> (of_char (b64_char n) :: nat) =
     (if n < 26 then 65 + n else if n < 52 then 71 + n else if n < 62 then n - 4
      else if n = 62 then 43 else 47)"
  by (simp add: b64_char_def)

lemma b64_index_char: "n < 64 \<Longrightarrow> b64_index (b64_char n) = Some n"
  by (auto simp add: b64_index_def of_char_b64_char Let_def)

lemma b64_char_not_pad: "n < 64 \<Longrightarrow> b64_char n \<noteq> CHR ''=''"
proof
  assume "n < 64" and "b64_char n = CHR ''=''"
  then have "(of_char (b64_char n) :: nat) = 61" by simp
  with \<open>n < 64\<close> show False by (simp add: of_char_b64_char split: if_splits)
qed

lemma sextets:
  fixes a b c :: nat
  shows "a < 256 \<Longrightarrow> sextet1 a < 64"
    and "b < 256 \<Longrightarrow> sextet2 a b < 64"
    and "c < 256 \<Longrightarrow> sextet3 b c < 64"
    and "sextet4 c < 64"
  by (simp_all add: sextet1_def sextet2_def sextet3_def sextet4_def)

lemma split_hi:
  fixes x y :: nat
  shows "y < 16 \<Longrightarrow> (x * 16 + y) div 16 = x" "y < 16 \<Longrightarrow> (x * 16 + y) mod 16 = y"
        "y < 4 \<Longrightarrow> (x * 4 + y) div 4 = x" "y < 4 \<Longrightarrow> (x * 4 + y) mod 4 = y"
  by simp_all

lemma octets:
  fixes a b c :: nat
  shows "b < 256 \<Longrightarrow> octet1 (sextet1 a) (sextet2 a b) = a"
    and "b < 256 \<Longrightarrow> c < 256 \<Longrightarrow> octet2 (sextet2 a b) (sextet3 b c) = b"
    and "c < 256 \<Longrightarrow> octet3 (sextet3 b c) (sextet4 c) = c"
proof -
  have b: "b < 256 \<Longrightarrow> b div 16 < 16" and c: "c < 256 \<Longrightarrow> c div 64 < 4"
    by simp_all
  show "b < 256 \<Longrightarrow> octet1 (sextet1 a) (sextet2 a b) = a"
    using b by (simp add: octet1_def sextet1_def sextet2_def split_hi)
  show "b < 256 \<Longrightarrow> c < 256 \<Longrightarrow> octet2 (sextet2 a b) (sextet3 b c) = b"
    using b c by (simp add: octet2_def sextet2_def sextet3_def split_hi)
  show "c < 256 \<Longrightarrow> octet3 (sextet3 b c) (sextet4 c) = c"
    using c by (simp add: octet3_def sextet3_def sextet4_def split_hi)
qed

lemma atob_btoa_bytes:
  "list_all (\<lambda>x. x < 256) bs \<Longrightarrow> atob_bytes (btoa_bytes bs) = Some bs"
proof (induction bs rule: btoa_bytes.induct)
  case 1
  then show ?case by simp
next
  case (2 a)
  then show ?case
    by (simp add: b64_index_char sextets octets)
next
  case (3 a b)
  then show ?case
    by (simp add: b64_index_char b64_char_not_pad sextets octets)
next
  case (4 a b c rest)
  then show ?case
    by (simp add: b64_index_char b64_char_not_pad sextets octets)
qed

lemma atob_btoa: "atob (btoa s) = Some s"
proof -
  have "list_all (\<lambda>x. x < 256) (map of_char s :: nat list)"
    by (simp add: list_all_iff)
  then show ?thesis
    by (simp add: atob_def btoa_def atob_btoa_bytes comp_def)
qed

subsection \<open>JSON\<close>

lemma strip_prefix_append: "strip_prefix p (p @ s) = Some s"
  by (induction p) simp_all


lemma digit_value_hex_char: "d < 16 \<Longrightarrow> digit_value (hex_char d) = Some d"
  by (auto simp add: digit_value_def hex_char_def Let_def)


lemma hex4_unicode_escape:
  assumes "(of_char c :: nat) < 32"
  shows "hex4 (CHR ''0'') (CHR ''0'') (hex_char (of_char c div 16)) (hex_char (of_char c mod 16))
         = Some c"
proof -
  have "(of_char c :: nat) div 16 < 16" using assms by simp
  moreover have "digit_value (CHR ''0'') = Some 0" by (simp add: digit_value_def)
  ultimately show ?thesis
    by (simp add: hex4_def digit_value_hex_char)
qed


lemma parse_QuoteJSONChar:
  "parse_string_chars (QuoteJSONChar c @ t)
   = map_option (\<lambda>(s, r). (c # s, r)) (parse_string_chars t)"
proof -
  consider (short) "c \<in> {CHR 0x08, CHR 0x09, CHR 0x0A, CHR 0x0C, CHR 0x0D, CHR 0x22, CHR 0x5C}"
    | (ctrl) "c \<notin> {CHR 0x08, CHR 0x09, CHR 0x0A, CHR 0x0C, CHR 0x0D, CHR 0x22, CHR 0x5C}"
        "(of_char c :: nat) < 32"
    | (plain) "c \<noteq> CHR 0x22" "c \<noteq> CHR 0x5C" "\<not> (of_char c :: nat) < 32"
    by auto
  then show ?thesis
  proof cases
    case short
    then show ?thesis
      by (auto simp add: QuoteJSONChar_def unescape_def)
  next
    case ctrl
    then show ?thesis
      by (simp add: QuoteJSONChar_def unicode_escape_def hex4_unicode_escape)
  next
    case plain
    then show ?thesis
      by (auto simp add: QuoteJSONChar_def)
  qed
qed


lemma parse_quoted:
  "parse_string_chars (concat (map QuoteJSONChar s) @ CHR 0x22 # rest) = Some (s, rest)"
  by (induction s) (simp_all add: parse_QuoteJSONChar)


lemma digit_char_props:
  "d < 10 \<Longrightarrow> is_digit (digit_char d)"
  "d < 10 \<Longrightarrow> (of_char (digit_char d) :: nat) = 48 + d"
  by (simp_all add: is_digit_def digit_char_def)


lemma show_nat_small: "n < 10 \<Longrightarrow> show_nat n = [digit_char n]"
  by (subst show_nat.simps) simp

lemma show_nat_large:
  "\<not> n < 10 \<Longrightarrow> show_nat n = show_nat (n div 10) @ [digit_char (n mod 10)]"
  by (subst show_nat.simps) simp

lemma show_nat_digits: "list_all is_digit (show_nat n)"
proof (induction n rule: show_nat.induct)
  case (1 n)
  then show ?case
    by (cases "n < 10") (simp_all add: show_nat_small show_nat_large digit_char_props)
qed

lemma show_nat_nonempty: "show_nat n \<noteq> []"
  by (cases "n < 10") (simp_all add: show_nat_small show_nat_large)

lemma digits_value_snoc:
  "digits_value (ds @ [c]) = 10 * digits_value ds + (of_char c - 48)"
  by (simp add: digits_value_def)


lemma digits_value_show_nat: "digits_value (show_nat n) = n"
proof (induction n rule: show_nat.induct)
  case (1 n)
  show ?case
  proof (cases "n < 10")
    case True
    then show ?thesis by (simp add: show_nat_small digits_value_def digit_char_props)
  next
    case False
    with 1 show ?thesis
      by (simp add: show_nat_large digits_value_snoc digit_char_props)
  qed
qed

lemma show_nat_no_leading_zero: "0 < n \<Longrightarrow> hd (show_nat n) \<noteq> CHR ''0''"
proof (induction n rule: show_nat.induct)
  case (1 n)
  show ?case
  proof (cases "n < 10")
    case True
    have "(of_char (digit_char n) :: nat) \<noteq> of_char (CHR ''0'')"
      using True 1(2) by (simp add: digit_char_props)
    then have "digit_char n \<noteq> CHR ''0''" by metis
    with True show ?thesis by (simp add: show_nat_small)
  next
    case False
    then have "hd (show_nat n) = hd (show_nat (n div 10))"
      by (simp add: show_nat_large show_nat_nonempty)
    moreover have "0 < n div 10" using False by simp
    ultimately show ?thesis using 1(1) False by simp
  qed
qed

lemma show_nat_length: "1 < length (show_nat n) \<Longrightarrow> 0 < n"
  by (cases "n = 0") (simp_all add: show_nat_small)

lemma parse_nat_show_nat: "parse_nat (show_nat n) = Some n"
  using show_nat_no_leading_zero [of n] show_nat_length [of n]
  by (auto simp add: parse_nat_def show_nat_digits show_nat_nonempty digits_value_show_nat)


lemma show_nat_hd_not_minus: "hd (show_nat n) \<noteq> CHR ''-''"
proof -
  have "is_digit (hd (show_nat n))"
    using show_nat_digits [of n] show_nat_nonempty [of n]
    by (cases "show_nat n") simp_all
  then show ?thesis by (auto simp add: is_digit_def)
qed

lemma parse_number_show_int: "parse_number (show_int i) = Some i"
proof (cases "i < 0")
  case True
  then show ?thesis
    by (simp add: parse_number_def show_int_def parse_nat_show_nat)
next
  case False
  obtain c cs where cs: "show_nat (nat i) = c # cs"
    using show_nat_nonempty [of "nat i"] by (cases "show_nat (nat i)") auto
  with show_nat_hd_not_minus [of "nat i"] have "c \<noteq> CHR ''-''" by simp
  with False cs parse_nat_show_nat [of "nat i"] show ?thesis
    by (simp add: parse_number_def show_int_def)
qed


lemma JSON_parse_stringify: "JSON_parse (JSON_stringify p) = Some p"
proof (cases "chainId p")
  case None
  have "JSON_stringify p
        = ''{\"hash\":\"'' @ (concat (map QuoteJSONChar (hash p)) @ CHR 0x22 # ''}'')"
    by (simp add: JSON_stringify_def QuoteJSONString_def None)
  then show ?thesis
    using None by (simp add: JSON_parse_def strip_prefix_append parse_quoted)
next
  case (Some n)
  let ?num = "show_int n @ ''}''"
  have "JSON_stringify p
        = ''{\"hash\":\"'' @ (concat (map QuoteJSONChar (hash p))
            @ CHR 0x22 # ('',\"chainId\":'' @ ?num))"
    by (simp add: JSON_stringify_def QuoteJSONString_def Some)
  moreover have "strip_prefix '',\"chainId\":'' ('',\"chainId\":'' @ ?num) = Some ?num"
    by (rule strip_prefix_append)
  moreover have "'',\"chainId\":'' @ ?num \<noteq> ''}''" by simp
  ultimately show ?thesis
    using Some
    by (simp add: JSON_parse_def strip_prefix_append parse_quoted parse_number_show_int)
qed


lemma decode_createPaymentToken:
  "decodePaymentToken (createPaymentToken h c) = Some \<lparr>hash = h, chainId = c\<rparr>"
  by (simp add: decodePaymentToken_def createPaymentToken_def atob_btoa JSON_parse_stringify)

text \<open>
  C5. For every transaction hash and every chain id that is a safe integer (the range
  on which a JavaScript number prints as its decimal digits), \<open>createPaymentToken\<close>
  is the Base64 text of the JSON text of \<open>{hash, chainId}\<close>; decoding the token
  gives back exactly that record, and encoding the decoded record again gives the
  identical token.
\<close>

theorem createPaymentToken_round_trip:
  assumes "safe_integer n"
  shows "createPaymentToken txHash (Some n)
           = btoa (JSON_stringify \<lparr>hash = txHash, chainId = Some n\<rparr>)
       \<and> decodePaymentToken (createPaymentToken txHash (Some n))
           = Some \<lparr>hash = txHash, chainId = Some n\<rparr>
       \<and> map_option encodePayment (decodePaymentToken (createPaymentToken txHash (Some n)))
           = Some (createPaymentToken txHash (Some n))"
  by (simp add: decode_createPaymentToken encodePayment_def)
    (simp add: createPaymentToken_def)

theorem createPaymentToken_round_trip_witness:
  "safe_integer 84532
   \<and> decodePaymentToken (createPaymentToken ''0xabc'' (Some 84532))
       = Some \<lparr>hash = ''0xabc'', chainId = Some 84532\<rparr>
   \<and> map_option encodePayment (decodePaymentToken (createPaymentToken ''0xabc'' (Some 84532)))
       = Some (createPaymentToken ''0xabc'' (Some 84532))"
proof -
  have safe: "safe_integer 84532"
    by (simp add: safe_integer_def)
  from createPaymentToken_round_trip [OF safe, of "''0xabc''"] safe
  show ?thesis by blast
qed

text \<open>The token of the specification's scenario A.\<close>

lemma JSON_stringify_sample:
  \<open>JSON_stringify \<lparr>hash = ''0xabc'', chainId = Some 84532\<rparr>
     = ''{"hash":"0xabc","chainId":84532}''\<close>
  by (simp add: JSON_stringify_def QuoteJSONString_def QuoteJSONChar_def show_int_def
      show_nat.simps digit_char_def char_of_eq_iff)

lemma btoa_sample:
  \<open>btoa ''{"hash":"0xabc","chainId":84532}''
     = ''eyJoYXNoIjoiMHhhYmMiLCJjaGFpbklkIjo4NDUzMn0=''\<close>
  by (simp add: btoa_def b64_char_def sextet1_def sextet2_def sextet3_def sextet4_def
      char_of_eq_iff)

lemma createPaymentToken_sample:
  "createPaymentToken ''0xabc'' (Some 84532)
     = ''eyJoYXNoIjoiMHhhYmMiLCJjaGFpbklkIjo4NDUzMn0=''"
  by (simp only: createPaymentToken_def Let_def JSON_stringify_sample btoa_sample)

section \<open>Properties of runs\<close>

lemma await_call_Inr [simp]: "await (call ev (Inr x)) k = (fst (k x), ev # snd (k x))"
  by (simp add: await_def call_def split: prod.splits)

lemma await_call_Inl [simp]: "await (call ev (Inl e)) k = (Inl e, [ev])"
  by (simp add: await_def call_def)

lemma await_return [simp]: "await (return x) k = k x"
  by (simp add: await_def return_def split: prod.splits)

lemma await_throw [simp]: "await (throw e) k = throw e"
  by (simp add: await_def throw_def)

lemma try_catch_call_Inr [simp]: "try_catch (call ev (Inr x)) handler = (Inr x, [ev])"
  by (simp add: try_catch_def call_def)

lemma try_catch_call_Inl [simp]:
  "try_catch (call ev (Inl e)) handler = (fst (handler e), ev # snd (handler e))"
  by (simp add: try_catch_def call_def split: prod.splits)

lemma run_parts [simp]:
  "fst (call ev answer) = answer" "snd (call ev answer) = [ev]"
  "fst (return x) = Inr x" "snd (return x) = []"
  "fst (throw e) = Inl e" "snd (throw e) = []"
  by (simp_all add: call_def return_def throw_def)

lemma await_Inr:
  "await m k = (Inr y, tr) \<longleftrightarrow> (\<exists>x t t'. m = (Inr x, t) \<and> k x = (Inr y, t') \<and> tr = t @ t')"
  by (cases m) (auto simp add: await_def split: sum.splits prod.splits)


lemma call_Inr: "call ev answer = (Inr x, t) \<longleftrightarrow> answer = Inr x \<and> t = [ev]"
  by (auto simp add: call_def)

lemma return_Inr: "return x = (Inr y, t) \<longleftrightarrow> x = y \<and> t = []"
  by (auto simp add: return_def)

lemma throw_Inr: "throw e \<noteq> (Inr y, t)"
  by (simp add: throw_def)

section \<open>Properties of ensureNetwork\<close>

lemma ensureNetwork_on_chain:
  assumes "getNetwork env = Inr n" and "Some (Number_bigint n) = config_chainIdDec config"
  shows "ensureNetwork env config = (Inr (), [GetNetwork])"
  using assms by (simp add: ensureNetwork_def return_def)

lemma ensureNetwork_off_chain:
  assumes "getNetwork env = Inr n" and "Some (Number_bigint n) \<noteq> config_chainIdDec config"
  shows "ensureNetwork env config =
          (case switch_answer env config of
             Inr u \<Rightarrow> (Inr (), [GetNetwork, switch_request config])
           | Inl e \<Rightarrow>
               if unrecognized_chain e
               then (add_answer env config,
                     [GetNetwork, switch_request config, add_request config])
               else (Inl e, [GetNetwork, switch_request config]))"
  using assms
  by (simp add: ensureNetwork_def split: sum.splits)

lemma ensureNetwork_unreadable:
  assumes "getNetwork env = Inl e"
  shows "ensureNetwork env config = (Inl e, [GetNetwork])"
  using assms by (simp add: ensureNetwork_def)

lemma ensureNetwork_events:
  assumes "ev \<in> set (snd (ensureNetwork env config))"
  shows "ev = GetNetwork \<or> ev = switch_request config \<or> ev = add_request config"
proof (cases "getNetwork env")
  case (Inl e)
  with assms show ?thesis by (simp add: ensureNetwork_unreadable)
next
  case (Inr n)
  show ?thesis
  proof (cases "Some (Number_bigint n) = config_chainIdDec config")
    case True
    with Inr assms show ?thesis by (simp add: ensureNetwork_on_chain)
  next
    case False
    with Inr assms show ?thesis
      by (auto simp add: ensureNetwork_off_chain split: sum.splits if_splits)
  qed
qed

lemma ensureNetwork_reads_once:
  "filter (\<lambda>ev. ev = GetNetwork) (snd (ensureNetwork env config)) = [GetNetwork]"
proof (cases "getNetwork env")
  case (Inl e)
  then show ?thesis by (simp add: ensureNetwork_unreadable)
next
  case (Inr n)
  show ?thesis
  proof (cases "Some (Number_bigint n) = config_chainIdDec config")
    case True
    with Inr show ?thesis by (simp add: ensureNetwork_on_chain)
  next
    case False
    with Inr show ?thesis
      by (simp add: ensureNetwork_off_chain switch_request_def add_request_def
          split: sum.splits)
  qed
qed



section \<open>Properties of executePayment\<close>

lemma await_run: "m = (Inr x, t) \<Longrightarrow> await m k = (fst (k x), t @ snd (k x))"
  by (simp add: await_def split: prod.splits)

lemma await_InrE:
  assumes "await m k = (Inr y, tr)"
  obtains x t t' where "m = (Inr x, t)" and "k x = (Inr y, t')" and "tr = t @ t'"
  using assms by (auto simp add: await_Inr)


lemma call_InrE:
  assumes "call ev answer = (Inr x, t)"
  obtains "answer = Inr x" and "t = [ev]"
  using assms by (simp add: call_Inr)

lemma return_InrE:
  assumes "return x = (Inr y, t)"
  obtains "y = x" and "t = []"
  using assms by (auto simp add: return_Inr)

lemma throw_InrE: "throw e = (Inr y, t) \<Longrightarrow> P"
  by (simp add: throw_Inr)

text \<open>What a run of \<open>executePayment\<close> that returns a hash went through.\<close>

lemma executePayment_returns:
  assumes "executePayment env option config = (Inr txHash, tr)"
  shows "\<exists>tn userAddress balance requiredAmount.
           ethereum env
         \<and> ensureNetwork env config = (Inr (), tn)
         \<and> getSigner env = Inr ()
         \<and> getAddress env = Inr userAddress
         \<and> balanceOf env (asset option) userAddress = Inr balance
         \<and> BigInt (maxAmountRequired option) = Some requiredAmount
         \<and> \<not> balance < requiredAmount
         \<and> token_transfer env (asset option) (payTo option) (maxAmountRequired option)
             = Inr txHash
         \<and> tx_wait env txHash 1 = Inr ()
         \<and> tr = tn @ [GetSigner, GetAddress, BalanceOf (asset option) userAddress,
                      Transfer (asset option) (payTo option) (maxAmountRequired option),
                      Wait txHash 1]"
  using assms unfolding executePayment_def
  by (auto elim!: await_InrE call_InrE return_InrE throw_InrE
      split: if_splits option.splits)




subsection \<open>The scenarios\<close>

lemma BigInt_sample: "BigInt ''1000000'' = Some 1000000"
  by (simp add: BigInt_def trim_def is_white_space_def digits_in_def digit_value_def)

lemma sample_env_simps [simp]:
  "ethereum (sample_env chain chain_requests held transfer_outcome server) = True"
  "api_get (sample_env chain chain_requests held transfer_outcome server) url header
     = server header"
  "getNetwork (sample_env chain chain_requests held transfer_outcome server) = Inr chain"
  "provider_send (sample_env chain chain_requests held transfer_outcome server)
     = chain_requests"
  "getSigner (sample_env chain chain_requests held transfer_outcome server) = Inr ()"
  "getAddress (sample_env chain chain_requests held transfer_outcome server)
     = Inr ''0xPayer''"
  "balanceOf (sample_env chain chain_requests held transfer_outcome server) token owner
     = Inr held"
  "token_transfer (sample_env chain chain_requests held transfer_outcome server) token to
     amount = transfer_outcome"
  "tx_wait (sample_env chain chain_requests held transfer_outcome server) tx confirmations
     = Inr ()"
  by (simp_all add: sample_env_def)

lemma option_on_simps [simp]:
  "network (option_on net) = net" "asset (option_on net) = ''0xUSDC''"
  "payTo (option_on net) = ''0xMerchant''" "maxAmountRequired (option_on net) = ''1000000''"
  by (simp_all add: option_on_def)

lemma ensureNetwork_sample:
  "ensureNetwork (sample_env 84532 chain_requests held transfer_outcome server)
     (Entry base_sepolia) = (Inr (), [GetNetwork])"
  by (rule ensureNetwork_on_chain [where n = 84532])
     (simp_all add: Number_bigint_def base_sepolia_def)

text \<open>Scenario A: the wallet is on the chain and holds enough.\<close>

lemma executePayment_scenario_A:
  "executePayment (sample_env 84532 chain_requests 2000000 (Inr ''0xabc'') server)
     (option_on ''base-sepolia'') (Entry base_sepolia)
   = (Inr ''0xabc'',
      [GetNetwork, GetSigner, GetAddress, BalanceOf ''0xUSDC'' ''0xPayer'',
       Transfer ''0xUSDC'' ''0xMerchant'' ''1000000'', Wait ''0xabc'' 1])"
  by (simp add: executePayment_def await_run [OF ensureNetwork_sample] BigInt_sample)

text \<open>Scenario B: the wallet holds half of what is required.\<close>

lemma executePayment_scenario_B:
  "executePayment (sample_env 84532 switch_ok 500000 (Inr ''0xabc'') server)
     (option_on ''base-sepolia'') (Entry base_sepolia)
   = (Inl (insufficient_balance 1000000 500000),
      [GetNetwork, GetSigner, GetAddress, BalanceOf ''0xUSDC'' ''0xPayer''])"
  by (simp add: executePayment_def await_run [OF ensureNetwork_sample] BigInt_sample)

lemma insufficient_balance_sample:
  "message (insufficient_balance 1000000 500000)
   = ''Insufficient Token Balance. You need 1000000 units of the token, ''
     @ ''but you only have 500000.''"
  by (simp add: insufficient_balance_def Error_def show_int_def show_nat.simps
      digit_char_def char_of_eq_iff)



section \<open>Properties of handlePayment\<close>

lemma handleSuccess_returns: "fst (handleSuccess res) = Inr ()"
  by (simp add: handleSuccess_def split: option.splits)

lemma handleSuccess_events:
  "ev \<in> set (snd (handleSuccess res)) \<Longrightarrow> \<not> is_request ev \<and> \<not> submits ev \<and> ev \<noteq> GetNetwork"
  by (auto simp add: handleSuccess_def split: option.splits if_splits)

lemma handleSuccess_no_request: "filter is_request (snd (handleSuccess res)) = []"
  using handleSuccess_events [of _ res] by (auto simp add: filter_empty_conv)

lemma executePayment_no_request:
  assumes "executePayment env option config = (Inr txHash, tr)"
  shows "filter is_request tr = []"
proof -
  from executePayment_returns [OF assms] obtain tn userAddress where
    net: "ensureNetwork env config = (Inr (), tn)" and
    tr: "tr = tn @ [GetSigner, GetAddress, BalanceOf (asset option) userAddress,
                    Transfer (asset option) (payTo option) (maxAmountRequired option),
                    Wait txHash 1]"
    by auto
  have "\<not> is_request ev" if "ev \<in> set tn" for ev
    using ensureNetwork_events [of ev env config] net that
    by (auto simp add: switch_request_def add_request_def)
  then have "filter is_request tn = []"
    by (simp add: filter_empty_conv)
  with tr show ?thesis by simp
qed

lemma executePayment_reads_chain_once:
  assumes "executePayment env option config = (Inr txHash, tr)"
  shows "filter (\<lambda>ev. ev = GetNetwork) tr = [GetNetwork]"
proof -
  from executePayment_returns [OF assms] obtain tn userAddress where
    net: "ensureNetwork env config = (Inr (), tn)" and
    tr: "tr = tn @ [GetSigner, GetAddress, BalanceOf (asset option) userAddress,
                    Transfer (asset option) (payTo option) (maxAmountRequired option),
                    Wait txHash 1]"
    by auto
  from ensureNetwork_reads_once [of env config] net
  have "filter (\<lambda>ev. ev = GetNetwork) tn = [GetNetwork]" by simp
  with tr show ?thesis by simp
qed

text \<open>The inner \<open>try\<close> once the match and the payment have succeeded.\<close>

lemma pay_and_retry_paid:
  assumes "data res = Some body" and "body_accepts body = Some accepts"
      and "findBestPaymentOption accepts = Inr (option, config)"
      and "executePayment env option config = (Inr txHash, tr)"
      and "token = createPaymentToken txHash (config_chainIdDec config)"
  shows "pay_and_retry env url res =
           (case api_get env url (Some token) of
              Inl e \<Rightarrow> (Inl e, tr @ [HttpGet url (Some token)])
            | Inr retryRes \<Rightarrow>
                (Inr (), tr @ HttpGet url (Some token) # snd (handleSuccess retryRes)))"
proof -
  have matched: "(findBestPaymentOption accepts, []) = (Inr (option, config), [])"
    using assms(3) by simp
  show ?thesis
    using assms(1,2,5)
    by (simp add: pay_and_retry_def await_run [OF matched] await_run [OF assms(4)]
        handleSuccess_returns split: sum.splits)
qed

lemma handlePayment_paid:
  assumes "api_get env (payment_url plan) None = Inl err"
      and "payment_required err = Some res"
      and "data res = Some body" and "body_accepts body = Some accepts"
      and "findBestPaymentOption accepts = Inr (option, config)"
      and "executePayment env option config = (Inr txHash, tr)"
      and "url = payment_url plan"
      and "token = createPaymentToken txHash (config_chainIdDec config)"
  shows "handlePayment env plan st =
           (case api_get env url (Some token) of
              Inl e \<Rightarrow>
                (st\<lparr>loading := False, error := payment_error_text e\<rparr>,
                 HttpGet url None # tr @ [HttpGet url (Some token)])
            | Inr retryRes \<Rightarrow>
                (st\<lparr>loading := False, error := []\<rparr>,
                 HttpGet url None # tr @ HttpGet url (Some token)
                   # snd (handleSuccess retryRes)))"
  using assms(1,2,7)
  by (simp add: handlePayment_def Let_def
      pay_and_retry_paid [OF assms(3,4,5,6,8), of "payment_url plan"] split: sum.splits)

lemma payment_error_text_nonempty: "payment_error_text e \<noteq> []"
  by (simp add: payment_error_text_def)

text \<open>
  C7. When the first request is answered with status 402 and the payment succeeds,
  the run contains exactly two requests to the server: the original one, and the same
  request once more with \<open>X-Payment\<close> set to the encoded token. When that second
  request is rejected the run ends there, with the error text set and no further
  event.
\<close>

theorem handlePayment_retries_once:
  assumes "api_get env (payment_url plan) None = Inl err"
      and "payment_required err = Some res"
      and "data res = Some body" and "body_accepts body = Some accepts"
      and "findBestPaymentOption accepts = Inr (option, config)"
      and "executePayment env option config = (Inr txHash, tr)"
      and "url = payment_url plan"
      and "token = createPaymentToken txHash (config_chainIdDec config)"
  shows "filter is_request (snd (handlePayment env plan st))
           = [HttpGet url None, HttpGet url (Some token)]
       \<and> (\<forall>e. api_get env url (Some token) = Inl e \<longrightarrow>
              handlePayment env plan st
                = (st\<lparr>loading := False, error := payment_error_text e\<rparr>,
                   HttpGet url None # tr @ [HttpGet url (Some token)])
            \<and> error (fst (handlePayment env plan st)) \<noteq> [])"
  by (simp add: handlePayment_paid [OF assms] executePayment_no_request [OF assms(6)]
      handleSuccess_no_request payment_error_text_nonempty split: sum.splits)

lemma first_supported_entry:
  "first_supported accepts = Some (option, Entry c) \<Longrightarrow> registry_lookup (network option) = Some c"
  by (induction accepts)
     (auto simp add: NETWORK_MAP_get_def registry_lookup_def split: option.splits if_splits)

lemma findBestPaymentOption_entry:
  "findBestPaymentOption accepts = Inr (option, Entry c)
   \<Longrightarrow> registry_lookup (network option) = Some c"
  by (auto simp add: findBestPaymentOption_def first_supported_entry split: option.splits)

lemma ensureNetwork_reads_first:
  "\<exists>rest. snd (ensureNetwork env config) = GetNetwork # rest \<and> GetNetwork \<notin> set rest"
proof (cases "getNetwork env")
  case (Inl e)
  then show ?thesis by (simp add: ensureNetwork_unreadable)
next
  case (Inr n)
  show ?thesis
  proof (cases "Some (Number_bigint n) = config_chainIdDec config")
    case True
    with Inr show ?thesis by (simp add: ensureNetwork_on_chain)
  next
    case False
    with Inr show ?thesis
      by (simp add: ensureNetwork_off_chain switch_request_def add_request_def
          split: sum.splits)
  qed
qed

lemma executePayment_reads_first:
  assumes "executePayment env option config = (Inr txHash, tr)"
  shows "\<exists>rest. tr = GetNetwork # rest \<and> GetNetwork \<notin> set rest"
proof -
  from executePayment_returns [OF assms] obtain tn userAddress where
    net: "ensureNetwork env config = (Inr (), tn)" and
    tr: "tr = tn @ [GetSigner, GetAddress, BalanceOf (asset option) userAddress,
                    Transfer (asset option) (payTo option) (maxAmountRequired option),
                    Wait txHash 1]"
    by auto
  from ensureNetwork_reads_first [of env config] net
  obtain rest where "tn = GetNetwork # rest" and "GetNetwork \<notin> set rest" by auto
  with tr show ?thesis by simp
qed

text \<open>
  C10. In a flow that reaches the retry, the only token sent is
  \<open>createPaymentToken txHash config.chainIdDec\<close> for the \<open>config\<close> the matcher
  returned, so the chain id a decoder reads from it is that property of \<open>config\<close>
  (for a registry entry, the \<open>chainIdDec\<close> of the entry of the option's network). The
  wallet's chain id is read once, as the first wallet call, and not again; and whatever
  the wallet answers to that read, a payment that succeeds with the same hash sends
  the same token.
\<close>

theorem handlePayment_token_chain:
  assumes "api_get env (payment_url plan) None = Inl err"
      and "payment_required err = Some res"
      and "data res = Some body" and "body_accepts body = Some accepts"
      and "findBestPaymentOption accepts = Inr (option, config)"
      and "executePayment env option config = (Inr txHash, tr)"
      and "url = payment_url plan"
      and "token = createPaymentToken txHash (config_chainIdDec config)"
  shows "HttpGet url (Some token) \<in> set (snd (handlePayment env plan st))
       \<and> (\<forall>t. HttpGet url (Some t) \<in> set (snd (handlePayment env plan st)) \<longrightarrow> t = token)
       \<and> decodePaymentToken token = Some \<lparr>hash = txHash, chainId = config_chainIdDec config\<rparr>
       \<and> (\<forall>c. config = Entry c \<longrightarrow>
              registry_lookup (network option) = Some c
            \<and> decodePaymentToken token = Some \<lparr>hash = txHash, chainId = Some (chainIdDec c)\<rparr>)
       \<and> (\<exists>rest. snd (handlePayment env plan st) = HttpGet url None # GetNetwork # rest
                 \<and> GetNetwork \<notin> set rest)
       \<and> (\<forall>answer tr'.
              executePayment (env\<lparr>getNetwork := answer\<rparr>) option config = (Inr txHash, tr')
              \<longrightarrow> HttpGet url (Some token)
                    \<in> set (snd (handlePayment (env\<lparr>getNetwork := answer\<rparr>) plan st)))"
proof (intro conjI allI impI)
  note paid = handlePayment_paid [OF assms, of st]
  show "HttpGet url (Some token) \<in> set (snd (handlePayment env plan st))"
    by (simp add: paid split: sum.splits)
  show "decodePaymentToken token = Some \<lparr>hash = txHash, chainId = config_chainIdDec config\<rparr>"
    by (simp add: assms(8) decode_createPaymentToken)
  have quiet: "filter is_request tr = []"
    by (rule executePayment_no_request [OF assms(6)])
  then have no_request: "HttpGet u h \<notin> set tr" for u h
    by (auto simp add: filter_empty_conv)
  show "t = token" if "HttpGet url (Some t) \<in> set (snd (handlePayment env plan st))" for t
    using that no_request [of url "Some t"] handleSuccess_events [of "HttpGet url (Some t)"]
    by (auto simp add: paid split: sum.splits)
  from executePayment_reads_first [OF assms(6)]
  obtain rest where rest: "tr = GetNetwork # rest" "GetNetwork \<notin> set rest" by auto
  have "GetNetwork \<notin> set (snd (handleSuccess r))" for r
    using handleSuccess_events [of GetNetwork r] by auto
  with rest
  show "\<exists>rest. snd (handlePayment env plan st) = HttpGet url None # GetNetwork # rest
              \<and> GetNetwork \<notin> set rest"
    by (simp add: paid split: sum.splits)
next
  fix c
  assume "config = Entry c"
  with assms(5) show "registry_lookup (network option) = Some c"
    by (simp add: findBestPaymentOption_entry)
  from \<open>config = Entry c\<close>
  show "decodePaymentToken token = Some \<lparr>hash = txHash, chainId = Some (chainIdDec c)\<rparr>"
    by (simp add: assms(8) decode_createPaymentToken)
next
  fix answer tr'
  assume other:
    "executePayment (env\<lparr>getNetwork := answer\<rparr>) option config = (Inr txHash, tr')"
  have first: "api_get (env\<lparr>getNetwork := answer\<rparr>) (payment_url plan) None = Inl err"
    using assms(1) by simp
  note paid' = handlePayment_paid [OF first assms(2,3,4,5) other assms(7,8), of st]
  show "HttpGet url (Some token) \<in> set (snd (handlePayment (env\<lparr>getNetwork := answer\<rparr>) plan st))"
    by (simp add: paid' split: sum.splits)
qed

section \<open>Outcomes and their rendering\<close>

lemma handlePayment_failed:
  assumes "api_get env (payment_url plan) None = Inl err"
      and "payment_required err = Some res"
      and "pay_and_retry env (payment_url plan) res = (Inl payErr, tr)"
  shows "handlePayment env plan st
         = (st\<lparr>loading := False, error := payment_error_text payErr\<rparr>,
            HttpGet (payment_url plan) None # tr)"
  using assms by (simp add: handlePayment_def Let_def)



section \<open>The scenarios, end to end\<close>

lemma first_request_sample:
  "api_get (sample_env chain chain_requests held transfer_outcome paying_server) url None
     = Inl (payment_required_error [option_on ''base-sepolia''])"
  "api_get (sample_env chain chain_requests held transfer_outcome refusing_server) url header
     = Inl (payment_required_error [option_on ''base-sepolia''])"
  "api_get (sample_env chain chain_requests held transfer_outcome paying_server) url
     (Some token) = Inr resource_response"
  by (simp_all add: paying_server_def refusing_server_def)

lemma payment_required_sample:
  "payment_required (payment_required_error offered) = Some (offer offered)"
  by (simp add: payment_required_def payment_required_error_def offer_def)

lemma offer_sample:
  "data (offer offered) = Some (offer_body offered)"
  "body_accepts (offer_body offered) = Some offered"
  by (simp_all add: offer_def offer_body_def)

lemma matcher_sample:
  "findBestPaymentOption [option_on ''base-sepolia'']
     = Inr (option_on ''base-sepolia'', Entry base_sepolia)"
  by (simp add: findBestPaymentOption_def NETWORK_MAP_get_def NETWORK_MAP_def)

lemma token_sample:
  "createPaymentToken ''0xabc'' (config_chainIdDec (Entry base_sepolia)) = sample_token"
  "createPaymentToken ''0xabc'' (Some (chainIdDec base_sepolia)) = sample_token"
  by (simp_all add: base_sepolia_def createPaymentToken_sample sample_token_def)

lemma handleSuccess_sample:
  "snd (handleSuccess resource_response) = [SetLocation ''/premium'']"
  by (simp add: handleSuccess_def getResponseData_def resource_response_def)

lemma pay_and_retry_unpaid:
  assumes "data res = Some body" and "body_accepts body = Some accepts"
      and "findBestPaymentOption accepts = Inr (option, config)"
      and "executePayment env option config = (Inl e, tr)"
  shows "pay_and_retry env url res = (Inl e, tr)"
proof -
  have matched: "(findBestPaymentOption accepts, []) = (Inr (option, config), [])"
    using assms(3) by simp
  show ?thesis
    using assms(1,2,4)
    by (simp add: pay_and_retry_def await_run [OF matched]) (simp add: await_def)
qed

text \<open>Scenario D: the wallet is on chain 1 and the switch succeeds.\<close>

lemma executePayment_scenario_D:
  "executePayment (sample_env 1 switch_ok 2000000 (Inr ''0xabc'') server)
     (option_on ''base-sepolia'') (Entry base_sepolia)
   = (Inr ''0xabc'',
      [GetNetwork, switch_request (Entry base_sepolia), GetSigner, GetAddress,
       BalanceOf ''0xUSDC'' ''0xPayer'', Transfer ''0xUSDC'' ''0xMerchant'' ''1000000'',
       Wait ''0xabc'' 1])"
proof -
  have "ensureNetwork (sample_env 1 switch_ok 2000000 (Inr ''0xabc'') server)
          (Entry base_sepolia)
        = (Inr (), [GetNetwork, switch_request (Entry base_sepolia)])"
    by (subst ensureNetwork_off_chain [where n = 1])
       (simp_all add: Number_bigint_def base_sepolia_def switch_answer_def switch_ok_def)
  note net = await_run [OF this]
  show ?thesis
    by (simp add: executePayment_def net BigInt_sample)
qed

text \<open>The wallet does not know the chain; it is added, and nothing is read again.\<close>

lemma executePayment_chain_added:
  "executePayment (sample_env 1 switch_unknown_chain 2000000 (Inr ''0xabc'') server)
     (option_on ''base-sepolia'') (Entry base_sepolia)
   = (Inr ''0xabc'',
      [GetNetwork, switch_request (Entry base_sepolia), add_request (Entry base_sepolia),
       GetSigner, GetAddress, BalanceOf ''0xUSDC'' ''0xPayer'',
       Transfer ''0xUSDC'' ''0xMerchant'' ''1000000'', Wait ''0xabc'' 1])"
proof -
  have "ensureNetwork (sample_env 1 switch_unknown_chain 2000000 (Inr ''0xabc'') server)
          (Entry base_sepolia)
        = (Inr (), [GetNetwork, switch_request (Entry base_sepolia),
                    add_request (Entry base_sepolia)])"
    by (subst ensureNetwork_off_chain [where n = 1])
       (simp_all add: Number_bigint_def base_sepolia_def switch_answer_def add_answer_def
          switch_unknown_chain_def unrecognized_chain_def wallet_error_def)
  note net = await_run [OF this]
  show ?thesis
    by (simp add: executePayment_def net BigInt_sample)
qed



lemma handlePayment_thrown:
  assumes "executePayment (sample_env chain chain_requests held transfer_outcome paying_server)
             (option_on ''base-sepolia'') (Entry base_sepolia) = (Inl e, tr)"
  shows "handlePayment (sample_env chain chain_requests held transfer_outcome paying_server)
           plan st
         = (st\<lparr>loading := False, error := payment_error_text e\<rparr>,
            HttpGet (payment_url plan) None # tr)"
  by (rule handlePayment_failed
        [OF first_request_sample(1) payment_required_sample
            pay_and_retry_unpaid [OF offer_sample matcher_sample assms]])

theorem handlePayment_retries_once_witness:
  "filter is_request
     (snd (handlePayment
             (sample_env 84532 switch_ok 2000000 (Inr ''0xabc'') refusing_server)
             ''basic'' idle))
   = [HttpGet (payment_url ''basic'') None,
      HttpGet (payment_url ''basic'') (Some sample_token)]
   \<and> handlePayment (sample_env 84532 switch_ok 2000000 (Inr ''0xabc'') refusing_server)
        ''basic'' idle
     = (idle\<lparr>loading := False, error := ''Request failed with status code 402''\<rparr>,
        [HttpGet (payment_url ''basic'') None, GetNetwork, GetSigner, GetAddress,
         BalanceOf ''0xUSDC'' ''0xPayer'', Transfer ''0xUSDC'' ''0xMerchant'' ''1000000'',
         Wait ''0xabc'' 1, HttpGet (payment_url ''basic'') (Some sample_token)])"
proof -
  note first =
    first_request_sample(2)
      [of 84532 switch_ok 2000000 "Inr ''0xabc''" "payment_url ''basic''" None]
  show ?thesis
    using handlePayment_retries_once
            [OF first payment_required_sample offer_sample matcher_sample
                executePayment_scenario_A refl refl, where st = idle]
    by (simp add: token_sample first_request_sample payment_error_text_def
        payment_required_error_def refusing_server_def)
qed

theorem handlePayment_token_chain_witness:
  "getNetwork (sample_env 1 switch_unknown_chain 2000000 (Inr ''0xabc'') paying_server)
     = Inr 1
   \<and> HttpGet (payment_url ''basic'') (Some sample_token)
       \<in> set (snd (handlePayment
                     (sample_env 1 switch_unknown_chain 2000000 (Inr ''0xabc'')
                        paying_server)
                     ''basic'' idle))
   \<and> HttpGet (payment_url ''basic'') (Some sample_token)
       \<in> set (snd (handlePayment
                     (sample_env 84532 switch_unknown_chain 2000000 (Inr ''0xabc'')
                        paying_server)
                     ''basic'' idle))
   \<and> decodePaymentToken sample_token = Some \<lparr>hash = ''0xabc'', chainId = Some 84532\<rparr>
   \<and> registry_lookup ''base-sepolia'' = Some base_sepolia"
proof -
  note first =
    first_request_sample(1)
      [of 1 switch_unknown_chain 2000000 "Inr ''0xabc''" "payment_url ''basic''"]
  note chain =
    handlePayment_token_chain
      [OF first payment_required_sample offer_sample matcher_sample
          executePayment_chain_added refl refl, where st = idle]
  have moved:
    "(sample_env 1 switch_unknown_chain 2000000 (Inr ''0xabc'') paying_server)
       \<lparr>getNetwork := Inr 84532\<rparr>
     = sample_env 84532 switch_unknown_chain 2000000 (Inr ''0xabc'') paying_server"
    by (simp add: sample_env_def)
  have other:
    "executePayment
       ((sample_env 1 switch_unknown_chain 2000000 (Inr ''0xabc'') paying_server)
          \<lparr>getNetwork := Inr 84532\<rparr>)
       (option_on ''base-sepolia'') (Entry base_sepolia)
     = (Inr ''0xabc'',
        [GetNetwork, GetSigner, GetAddress, BalanceOf ''0xUSDC'' ''0xPayer'',
         Transfer ''0xUSDC'' ''0xMerchant'' ''1000000'', Wait ''0xabc'' 1])"
    by (simp only: moved executePayment_scenario_A)
  from chain have sent:
    "HttpGet (payment_url ''basic'') (Some sample_token)
       \<in> set (snd (handlePayment
                     (sample_env 1 switch_unknown_chain 2000000 (Inr ''0xabc'')
                        paying_server)
                     ''basic'' idle))"
    and decoded:
    "decodePaymentToken sample_token
       = Some \<lparr>hash = ''0xabc'', chainId = Some (chainIdDec base_sepolia)\<rparr>"
    and looked_up: "registry_lookup ''base-sepolia'' = Some base_sepolia"
    by (simp_all add: token_sample)
  from chain other have
    "HttpGet (payment_url ''basic'') (Some sample_token)
       \<in> set (snd (handlePayment
                     ((sample_env 1 switch_unknown_chain 2000000 (Inr ''0xabc'')
                         paying_server)\<lparr>getNetwork := Inr 84532\<rparr>)
                     ''basic'' idle))"
    unfolding token_sample by blast
  then have sent_too:
    "HttpGet (payment_url ''basic'') (Some sample_token)
       \<in> set (snd (handlePayment
                     (sample_env 84532 switch_unknown_chain 2000000 (Inr ''0xabc'')
                        paying_server)
                     ''basic'' idle))"
    by (simp only: moved)
  from decoded have "decodePaymentToken sample_token
                     = Some \<lparr>hash = ''0xabc'', chainId = Some 84532\<rparr>"
    by (simp add: base_sepolia_def)
  with sent sent_too looked_up show ?thesis by simp
qed




text \<open>Scenario A of the specification, end to end.\<close>

lemma handlePayment_scenario_A:
  "handlePayment (sample_env 84532 switch_ok 2000000 (Inr ''0xabc'') paying_server)
     ''basic'' idle
   = (idle,
      [HttpGet (payment_url ''basic'') None, GetNetwork, GetSigner, GetAddress,
       BalanceOf ''0xUSDC'' ''0xPayer'', Transfer ''0xUSDC'' ''0xMerchant'' ''1000000'',
       Wait ''0xabc'' 1, HttpGet (payment_url ''basic'') (Some sample_token),
       SetLocation ''/premium''])"
  by (simp add: handlePayment_paid
        [OF first_request_sample(1) payment_required_sample offer_sample matcher_sample
            executePayment_scenario_A refl refl]
      token_sample paying_server_def handleSuccess_sample idle_def)

text \<open>Scenario B: the balance is too low; the server is asked once, and never paid.\<close>

lemma handlePayment_scenario_B:
  "handlePayment (sample_env 84532 switch_ok 500000 (Inr ''0xabc'') paying_server)
     ''basic'' idle
   = (idle\<lparr>loading := False,
            error := message (insufficient_balance 1000000 500000)\<rparr>,
      [HttpGet (payment_url ''basic'') None, GetNetwork, GetSigner, GetAddress,
       BalanceOf ''0xUSDC'' ''0xPayer''])"
  by (simp add: handlePayment_thrown [OF executePayment_scenario_B]
      payment_error_text_def insufficient_balance_def Error_def)

end
